theory Spec2Isabelle
  imports Main "HOL-Library.Code_Target_Nat"
begin

section \<open>Python strings\<close>

text \<open>
  A Python \<open>str\<close> is a sequence of Unicode code points, and is modelled as the list
  of their numbers. \<open>ustr\<close> turns a literal into such a list and \<open>cp\<close> a
  character into its code point. \<open>str.isspace\<close> holds on 29 code points: the ASCII
  controls 9 to 13 and 28 to 31, the space, U+0085, U+00A0, U+1680, U+2000 to U+200A,
  U+2028, U+2029, U+202F, U+205F and U+3000.
\<close>

type_synonym pystr = "nat list"

abbreviation cp :: "char \<Rightarrow> nat" where
  "cp \<equiv> of_char"

definition ustr :: "string \<Rightarrow> pystr" where
  "ustr s = map of_char s"

definition is_space :: "nat \<Rightarrow> bool" where
  "is_space c = (c \<in> set [9, 10, 11, 12, 13, 28, 29, 30, 31, 32, 133, 160, 5760,
                            8192, 8193, 8194, 8195, 8196, 8197, 8198, 8199, 8200, 8201, 8202,
                            8232, 8233, 8239, 8287, 12288])"

text \<open>\<open>str.strip()\<close> with no argument: whitespace is dropped at both ends.\<close>

definition lstrip :: "pystr \<Rightarrow> pystr" where
  "lstrip s = dropWhile is_space s"

definition rstrip :: "pystr \<Rightarrow> pystr" where
  "rstrip s = rev (dropWhile is_space (rev s))"

definition strip :: "pystr \<Rightarrow> pystr" where
  "strip s = rstrip (lstrip s)"

text \<open>
  \<open>str.maketrans(x, y)\<close> builds a dictionary that sends the i-th character of \<open>x\<close> to
  the i-th character of \<open>y\<close> (a later pair overrides an earlier one, as in a dict
  built from pairs); \<open>str.translate\<close> looks every character up and keeps the ones the
  dictionary does not hold.
\<close>

definition maketrans :: "pystr \<Rightarrow> pystr \<Rightarrow> (nat \<rightharpoonup> nat)" where
  "maketrans x y = fold (\<lambda>(k, v) m. m(k \<mapsto> v)) (zip x y) Map.empty"

definition translate :: "(nat \<rightharpoonup> nat) \<Rightarrow> pystr \<Rightarrow> pystr" where
  "translate table s = map (\<lambda>c. case table c of None \<Rightarrow> c | Some d \<Rightarrow> d) s"

section \<open>Filename Normalizer\<close>

text \<open>
  The first argument of \<open>maketrans\<close> in \<open>normalize_filename\<close>: backslash, slash, dot,
  colon, asterisk, question mark, double quote, angle brackets and pipe.
\<close>

definition forbidden_chars :: pystr where
  "forbidden_chars = [cp (CHR 0x5C), cp CHR ''/'', cp CHR ''.'', cp CHR '':'', cp CHR ''*'', cp CHR ''?'',
                      cp (CHR 0x22), cp CHR ''<'', cp CHR ''>'', cp CHR ''|'']"

definition normalize_filename :: "pystr \<Rightarrow> pystr" where
  "normalize_filename text = strip (translate (maketrans forbidden_chars (ustr ''__________'')) text)"

text \<open>
  The forbidden set as the specification words it (path separators, colon, asterisk,
  question mark, quote, angle brackets, pipe), and the normalizer the specification
  describes over that set.
\<close>

definition spec_forbidden_chars :: pystr where
  "spec_forbidden_chars = [cp (CHR 0x5C), cp CHR ''/'', cp CHR '':'', cp CHR ''*'', cp CHR ''?'',
                           cp (CHR 0x22), cp CHR ''<'', cp CHR ''>'', cp CHR ''|'']"

definition spec_normalize :: "pystr \<Rightarrow> pystr" where
  "spec_normalize text =
     strip (map (\<lambda>c. if c \<in> set spec_forbidden_chars then cp CHR ''_'' else c) text)"

text \<open>
  \<open>sep.join(xs)\<close>, and \<open>str(n)\<close> for an integer: decimal digits (code points
  48 to 57), with a minus sign for a negative number.
\<close>

fun py_join :: "pystr \<Rightarrow> pystr list \<Rightarrow> pystr" where
  "py_join sep [] = []"
| "py_join sep [x] = x"
| "py_join sep (x # y # ys) = x @ sep @ py_join sep (y # ys)"

fun str_nat :: "nat \<Rightarrow> pystr" where
  "str_nat n = (if n < 10 then [48 + n]
                else str_nat (n div 10) @ [48 + n mod 10])"

declare str_nat.simps [simp del]

definition str_int :: "int \<Rightarrow> pystr" where
  "str_int i = (if i < 0 then cp CHR ''-'' # str_nat (nat (- i)) else str_nat (nat i))"

section \<open>Exceptions\<close>

text \<open>
  The values a Python \<open>raise\<close> carries in this program, all of them instances of
  \<open>Exception\<close>: an \<open>except Exception\<close> clause catches each of them, an
  \<open>except OSError\<close> clause only the first. \<open>FileNotFoundError\<close>,
  \<open>PermissionError\<close> and \<open>FileExistsError\<close> are \<open>OSError\<close>s.
  \<open>KeyboardInterrupt\<close> and \<open>SystemExit\<close> are not instances of \<open>Exception\<close>
  and stay outside the model. A computation that may raise returns \<open>py_exc + 'a\<close>,
  with \<open>Inl\<close> for the exception.
\<close>

datatype py_exc = OSError | ValueError | TypeError | TimeoutExpired | ProviderError

section \<open>Shell patterns: \<open>fnmatch\<close> and \<open>Path.glob\<close>\<close>

text \<open>
  \<open>Path.glob\<close> matches every name of a directory against one pattern with the rules
  of \<open>fnmatch.translate\<close>: \<open>*\<close> stands for any run of characters, \<open>?\<close> for one
  character, \<open>[seq]\<close> for one character of \<open>seq\<close>, \<open>[!seq]\<close> for one character
  not in \<open>seq\<close>, and a \<open>[\<close> with no closing bracket for itself. Inside the brackets
  \<open>a-b\<close> is a range and a descending range holds nothing. The model is the
  case-sensitive one (the POSIX flavour); the Windows flavour matches every name this
  one matches. The theorems below rest on patterns whose classes hold no \<open>-\<close>.
\<close>

datatype class_item = One nat | Range nat nat

datatype glob_token = Star | AnyChar | Lit nat | CharClass bool "class_item list"

fun class_items :: "pystr \<Rightarrow> class_item list" where
  "class_items (a # m # b # rest) =
     (if m = cp CHR ''-'' then Range a b # class_items rest
      else One a # class_items (m # b # rest))"
| "class_items (a # rest) = One a # class_items rest"
| "class_items [] = []"

definition class_token :: "pystr \<Rightarrow> glob_token" where
  "class_token stuff =
     (case stuff of
        [] \<Rightarrow> CharClass False []
      | c # cs \<Rightarrow> if c = cp CHR ''!'' then CharClass True (class_items cs)
                  else CharClass False (class_items stuff))"

definition split_class :: "pystr \<Rightarrow> (pystr \<times> pystr) option" where
  "split_class s =
     (let (a, s1) = (case s of c # cs \<Rightarrow> if c = cp CHR ''!'' then ([c], cs) else ([], s) | [] \<Rightarrow> ([], s));
          (b, s2) = (case s1 of c # cs \<Rightarrow> if c = cp CHR '']'' then ([c], cs) else ([], s1) | [] \<Rightarrow> ([], s1));
          body = takeWhile (\<lambda>c. c \<noteq> cp CHR '']'') s2;
          after = dropWhile (\<lambda>c. c \<noteq> cp CHR '']'') s2
      in case after of [] \<Rightarrow> None | _ # rest \<Rightarrow> Some (a @ b @ body, rest))"

text \<open>
  The closing bracket lies strictly inside the text that follows the opening one, which
  is what makes the translation of a pattern terminate.
\<close>

lemma split_class_shorter: "split_class s = Some (stuff, rest) \<Longrightarrow> length rest < length s"
proof -
  assume a: "split_class s = Some (stuff, rest)"
  have d: "length (dropWhile P xs) \<le> length xs" for P and xs :: pystr
    by (simp add: length_dropWhile_le)
  have t: "dropWhile P xs = y # ys \<Longrightarrow> length ys < length xs" for P y ys and xs :: pystr
    using d [of P xs] by simp
  from a show ?thesis
    by (auto simp: split_class_def Let_def split: list.splits if_splits dest!: t)
qed

function translate_pat :: "pystr \<Rightarrow> glob_token list" where
  "translate_pat [] = []"
| "translate_pat (c # pat) =
     (if c = cp CHR ''*'' then
        (case translate_pat pat of Star # res \<Rightarrow> Star # res | res \<Rightarrow> Star # res)
      else if c = cp CHR ''?'' then AnyChar # translate_pat pat
      else if c = cp CHR ''['' then
        (case split_class pat of
           None \<Rightarrow> Lit c # translate_pat pat
         | Some (stuff, rest) \<Rightarrow> class_token stuff # translate_pat rest)
      else Lit c # translate_pat pat)"
  by pat_completeness auto
termination
  by (relation "measure length") (auto dest: split_class_shorter)

fun item_ok :: "class_item \<Rightarrow> nat \<Rightarrow> bool" where
  "item_ok (One a) c = (c = a)"
| "item_ok (Range a b) c = (a \<le> c \<and> c \<le> b)"

fun token_ok :: "glob_token \<Rightarrow> nat \<Rightarrow> bool" where
  "token_ok Star c = True"
| "token_ok AnyChar c = True"
| "token_ok (Lit a) c = (c = a)"
| "token_ok (CharClass neg items) c = (list_ex (\<lambda>i. item_ok i c) items \<noteq> neg)"

fun glob_match :: "glob_token list \<Rightarrow> pystr \<Rightarrow> bool" where
  "glob_match [] s = (s = [])"
| "glob_match (Star # ts) [] = glob_match ts []"
| "glob_match (Star # ts) (c # cs) = (glob_match ts (c # cs) \<or> glob_match (Star # ts) cs)"
| "glob_match (t # ts) [] = False"
| "glob_match (t # ts) (c # cs) = (token_ok t c \<and> glob_match ts cs)"

definition fnmatch :: "pystr \<Rightarrow> pystr \<Rightarrow> bool" where
  "fnmatch name pat = glob_match (translate_pat pat) name"

text \<open>
  The \<open>pathlib\<close> of Python 3.11 and 3.12 refuses a pattern component that holds
  \<open>**\<close> next to other characters with a \<open>ValueError\<close>; an empty pattern is
  refused too.
\<close>

fun has_double_star :: "pystr \<Rightarrow> bool" where
  "has_double_star (a # b # rest) = ((a = cp CHR ''*'' \<and> b = cp CHR ''*'') \<or> has_double_star (b # rest))"
| "has_double_star _ = False"



section \<open>The world: file system, providers, faults\<close>

text \<open>
  A file is a pair of its directory and its name; the world holds the directories and
  files that exist, in listing order, and the calls made so far to the outside (catalog,
  search and download providers, the transcoder, the file system, \<open>time.sleep\<close> in
  milliseconds).
\<close>

type_synonym path = "pystr \<times> pystr"

datatype event =
    CatalogPlaylist pystr
  | CatalogItems pystr nat
  | Mkdir pystr
  | Search pystr
  | Download pystr path
  | Sleep nat
  | Rename path path
  | Unlink path
  | Ffmpeg path path
  | ZipOpen path
  | ZipWrite path path
  | ZipClose path
  | Rmtree pystr

record world =
  fs_dirs :: "pystr list"
  fs_files :: "path list"
  trace :: "event list"

text \<open>
  A search result is a dictionary: its \<open>url\<close> may be missing, its \<open>duration\<close>
  may be missing, present with the value \<open>None\<close>, or a number (whole seconds here).
  A track of the catalog has a name, its artists' names and a duration in milliseconds.
\<close>

datatype duration_field = DurationMissing | DurationNone | Duration int

record entry =
  entry_url :: "pystr option"
  entry_duration :: duration_field

record track =
  track_name :: pystr
  track_artists :: "pystr list"
  duration_ms :: int

text \<open>
  Everything the outside decides is a field of \<open>env\<close>: the string hash of the
  interpreter, the providers' answers (for a search, the exception raised or the list
  \<open>results.get('entries', [])\<close>; for a page of the catalog, its items and whether a
  next page is named), how \<open>ydl.download\<close> ends (the exception it raises or the
  code it returns: with \<open>ignoreerrors\<close> a failed download returns a code other than
  0 and raises nothing) and which files it leaves in the output directory, whether a \<open>rename\<close> or an \<open>unlink\<close> of an
  existing file fails at a given attempt, how the \<open>ffmpeg\<close> subprocess ends (exit code
  or exception, and whether its output file was written), the variable
  \<open>NORMALIZE_AUDIO\<close>, and the faults of \<open>mkdir\<close>, of the archive writer and of
  \<open>rmtree\<close> (with the files and directories it had removed before failing), and
  what a pool of several concurrent units leaves behind. The object
  \<open>self\<close> carries \<open>ffmpeg_available\<close>, absent when the attribute was never set.
\<close>

datatype proc_outcome = Exited int bool | RunRaised py_exc bool

record env =
  py_hash :: "pystr \<Rightarrow> int"
  sp_playlist :: "pystr \<Rightarrow> py_exc + pystr"
  sp_playlist_items :: "pystr \<Rightarrow> nat \<Rightarrow> py_exc + (track option list \<times> bool)"
  extract_info :: "pystr \<Rightarrow> py_exc + entry list"
  ydl_download :: "pystr \<Rightarrow> path \<Rightarrow> (py_exc + int) \<times> pystr list"
  rename_fault :: "path \<Rightarrow> path \<Rightarrow> nat \<Rightarrow> py_exc option"
  unlink_fault :: "path \<Rightarrow> nat \<Rightarrow> py_exc option"
  ffmpeg_run :: "path \<Rightarrow> path \<Rightarrow> proc_outcome"
  getenv_normalize_audio :: "pystr option"
  mkdir_fault :: "pystr \<Rightarrow> py_exc option"
  zip_open_fault :: "path \<Rightarrow> py_exc option"
  zip_write_fault :: "path \<Rightarrow> path \<Rightarrow> py_exc option"
  zip_close_fault :: "path \<Rightarrow> py_exc option"
  rmtree_fault :: "pystr \<Rightarrow> (py_exc \<times> path list \<times> pystr list) option"
  pool_outcome :: "track list \<Rightarrow> pystr \<Rightarrow> world \<Rightarrow> py_exc option \<times> world"

record downloader =
  ffmpeg_available :: "bool option"

text \<open>
  \<open>unlink\<close> and \<open>rename\<close> raise \<open>FileNotFoundError\<close> when the source does not
  exist; otherwise the environment decides whether they fail (a locked file, or on
  Windows a destination that exists), and a successful \<open>rename\<close> replaces the
  destination. \<open>glob\<close> lists the files of one directory whose name matches, in
  listing order.
\<close>

definition log_event :: "event \<Rightarrow> world \<Rightarrow> world" where
  "log_event e w = w\<lparr>trace := trace w @ [e]\<rparr>"

definition exists_file :: "world \<Rightarrow> path \<Rightarrow> bool" where
  "exists_file w p = (p \<in> set (fs_files w))"

definition add_file :: "path \<Rightarrow> world \<Rightarrow> world" where
  "add_file p w = (if p \<in> set (fs_files w) then w else w\<lparr>fs_files := fs_files w @ [p]\<rparr>)"

definition glob :: "world \<Rightarrow> pystr \<Rightarrow> pystr \<Rightarrow> py_exc + path list" where
  "glob w dir pattern =
     (if pattern = [] then Inl ValueError
      else if has_double_star pattern then Inl ValueError
      else Inr (filter (\<lambda>p. fst p = dir \<and> fnmatch (snd p) pattern) (fs_files w)))"

definition unlink :: "env \<Rightarrow> world \<Rightarrow> path \<Rightarrow> nat \<Rightarrow> (py_exc + unit) \<times> world" where
  "unlink env w p attempt =
     (let w1 = log_event (Unlink p) w in
      if p \<in> set (fs_files w) then
        (case unlink_fault env p attempt of
           Some e \<Rightarrow> (Inl e, w1)
         | None \<Rightarrow> (Inr (), w1\<lparr>fs_files := removeAll p (fs_files w1)\<rparr>))
      else (Inl OSError, w1))"

definition rename :: "env \<Rightarrow> world \<Rightarrow> path \<Rightarrow> path \<Rightarrow> nat \<Rightarrow> (py_exc + unit) \<times> world" where
  "rename env w src dst attempt =
     (let w1 = log_event (Rename src dst) w in
      if src \<in> set (fs_files w) then
        (case rename_fault env src dst attempt of
           Some e \<Rightarrow> (Inl e, w1)
         | None \<Rightarrow>
             if src = dst then (Inr (), w1)
             else (Inr (), w1\<lparr>fs_files := map (\<lambda>p. if p = src then dst else p)
                                              (removeAll dst (fs_files w1))\<rparr>))
      else (Inl OSError, w1))"

section \<open>Candidate Resolver\<close>

text \<open>
  \<open>_get_youtube_url\<close>. The key of \<open>min\<close> is
  \<open>abs(x.get('duration', 0) - duration)\<close>: a missing duration counts as 0, and a
  duration that is \<open>None\<close> makes the subtraction raise \<open>TypeError\<close>. \<open>min\<close>
  keeps the first element whose key is smallest. \<open>if not duration or duration == 0\<close>
  holds for an absent duration and for 0. Every exception ends in \<open>return None\<close>.
\<close>

fun duration_key :: "int \<Rightarrow> entry \<Rightarrow> py_exc + int" where
  "duration_key d e =
     (case entry_duration e of
        DurationMissing \<Rightarrow> Inr \<bar>0 - d\<bar>
      | DurationNone \<Rightarrow> Inl TypeError
      | Duration n \<Rightarrow> Inr \<bar>n - d\<bar>)"

fun py_min_from :: "('a \<Rightarrow> py_exc + int) \<Rightarrow> 'a \<Rightarrow> int \<Rightarrow> 'a list \<Rightarrow> py_exc + 'a" where
  "py_min_from key best bk [] = Inr best"
| "py_min_from key best bk (x # xs) =
     (case key x of
        Inl e \<Rightarrow> Inl e
      | Inr k \<Rightarrow> if k < bk then py_min_from key x k xs else py_min_from key best bk xs)"

fun py_min :: "('a \<Rightarrow> py_exc + int) \<Rightarrow> 'a list \<Rightarrow> py_exc + 'a" where
  "py_min key [] = Inl ValueError"
| "py_min key (x # xs) =
     (case key x of Inl e \<Rightarrow> Inl e | Inr k \<Rightarrow> py_min_from key x k xs)"

definition search_query :: "pystr \<Rightarrow> pystr \<Rightarrow> pystr" where
  "search_query name artist = (ustr ''ytsearch2:'') @ take 60 (name @ (ustr '' '') @ artist)"

definition get_youtube_url_try ::
  "env \<Rightarrow> world \<Rightarrow> pystr \<Rightarrow> pystr \<Rightarrow> int option \<Rightarrow> (py_exc + pystr option) \<times> world"
where
  "get_youtube_url_try env w name artist duration =
     (let w1 = log_event (Search (search_query name artist)) w in
      case extract_info env (search_query name artist) of
        Inl e \<Rightarrow> (Inl e, w1)
      | Inr entries \<Rightarrow>
          (case entries of
             [] \<Rightarrow> (Inr None, w1)
           | first # _ \<Rightarrow>
               (case duration of
                  None \<Rightarrow> (Inr (entry_url first), w1)
                | Some d \<Rightarrow>
                    if d = 0 then (Inr (entry_url first), w1)
                    else (case py_min (duration_key d) entries of
                            Inl e \<Rightarrow> (Inl e, w1)
                          | Inr best_match \<Rightarrow> (Inr (entry_url best_match), w1)))))"

definition get_youtube_url ::
  "env \<Rightarrow> world \<Rightarrow> pystr \<Rightarrow> pystr \<Rightarrow> int option \<Rightarrow> (py_exc + pystr option) \<times> world"
where
  "get_youtube_url env w name artist duration =
     (case get_youtube_url_try env w name artist duration of
        (Inl e, w1) \<Rightarrow> (Inr None, w1)
      | (Inr r, w1) \<Rightarrow> (Inr r, w1))"

text \<open>
  The words of the specification about the resolver's choice: the duration a candidate
  counts with (0 when it has none), a candidate list whose durations are numbers or
  missing, and the first candidate of a list that is closest to the target.
\<close>

definition duration_or_zero :: "entry \<Rightarrow> int" where
  "duration_or_zero e = (case entry_duration e of Duration n \<Rightarrow> n | _ \<Rightarrow> 0)"

definition has_number_or_missing :: "entry \<Rightarrow> bool" where
  "has_number_or_missing e = (case entry_duration e of DurationNone \<Rightarrow> False | _ \<Rightarrow> True)"

definition first_closest :: "int \<Rightarrow> entry list \<Rightarrow> nat \<Rightarrow> bool" where
  "first_closest d entries i =
     (i < length entries
      \<and> list_all (\<lambda>e. \<bar>duration_or_zero (entries ! i) - d\<bar> \<le> \<bar>duration_or_zero e - d\<bar>) entries
      \<and> list_all (\<lambda>e. \<bar>duration_or_zero (entries ! i) - d\<bar> < \<bar>duration_or_zero e - d\<bar>) (take i entries))"

section \<open>Track Fetcher\<close>

text \<open>
  \<open>_download_track\<close>. The temporary name is \<open>temp_\<close> followed by
  \<open>hash(url) % 10000\<close>; the loop \<open>for attempt in range(2)\<close> tries the rename,
  returns on success and sleeps one second after an \<open>OSError\<close>; after the loop, and on
  every exception, the function returns \<open>None\<close>.
\<close>

definition temp_filename :: "(pystr \<Rightarrow> int) \<Rightarrow> pystr \<Rightarrow> pystr" where
  "temp_filename h url = (ustr ''temp_'') @ str_int (h url mod 10000)"

fun rename_attempts ::
  "env \<Rightarrow> path \<Rightarrow> path \<Rightarrow> nat list \<Rightarrow> world \<Rightarrow> (py_exc + path option) \<times> world"
where
  "rename_attempts env temp_file final_path [] w = (Inr None, w)"
| "rename_attempts env temp_file final_path (attempt # rest) w =
     (case rename env w temp_file final_path attempt of
        (Inr u, w1) \<Rightarrow> (Inr (Some final_path), w1)
      | (Inl e, w1) \<Rightarrow>
          if e = OSError
          then rename_attempts env temp_file final_path rest (log_event (Sleep 1000) w1)
          else (Inl e, w1))"

definition after_download :: "env \<Rightarrow> world \<Rightarrow> pystr \<Rightarrow> pystr \<Rightarrow> world" where
  "after_download env w url output_path =
     fold (\<lambda>n. add_file (output_path, n))
       (snd (ydl_download env url (output_path, temp_filename (py_hash env) url)))
       (log_event (Download url (output_path, temp_filename (py_hash env) url)) w)"

definition download_track_try ::
  "env \<Rightarrow> world \<Rightarrow> pystr \<Rightarrow> pystr \<Rightarrow> pystr \<Rightarrow> (py_exc + path option) \<times> world"
where
  "download_track_try env w url output_path final_filename =
     (case fst (ydl_download env url (output_path, temp_filename (py_hash env) url)) of
        Inl e \<Rightarrow> (Inl e, after_download env w url output_path)
      | Inr retcode \<Rightarrow>
          (case glob (after_download env w url output_path) output_path
                  (temp_filename (py_hash env) url @ (ustr ''*.mp3'')) of
             Inl e \<Rightarrow> (Inl e, after_download env w url output_path)
           | Inr downloaded_files \<Rightarrow>
               (case downloaded_files of
                  [] \<Rightarrow> (Inr None, after_download env w url output_path)
                | temp_file # _ \<Rightarrow>
                    rename_attempts env temp_file (output_path, final_filename @ (ustr ''.mp3''))
                      [0, 1] (log_event (Sleep 500) (after_download env w url output_path)))))"

definition download_track ::
  "env \<Rightarrow> world \<Rightarrow> pystr \<Rightarrow> pystr \<Rightarrow> pystr \<Rightarrow> (py_exc + path option) \<times> world"
where
  "download_track env w url output_path final_filename =
     (case download_track_try env w url output_path final_filename of
        (Inl e, w1) \<Rightarrow> (Inr None, w1)
      | (Inr r, w1) \<Rightarrow> (Inr r, w1))"

text \<open>
  What \<open>_download_track\<close> goes by, as a condition on the environment: the download
  call returns (its return code is not looked at), the directory then lists a file for
  the pattern, and the rename of the first such file goes through at the first attempt
  or, after an \<open>OSError\<close>, at the second. Whether that file is the one this download
  wrote is no part of the condition. \<open>fetch_events\<close> lists the calls of one fetch in
  order: the download, half a second of sleep before the first rename, and one second
  of sleep after every rename that failed with an \<open>OSError\<close>.
\<close>

definition temp_found_and_renamed :: "env \<Rightarrow> world \<Rightarrow> pystr \<Rightarrow> pystr \<Rightarrow> pystr \<Rightarrow> bool" where
  "temp_found_and_renamed env w url output_path final_filename =
     (case fst (ydl_download env url (output_path, temp_filename (py_hash env) url)) of
        Inl e \<Rightarrow> False
      | Inr retcode \<Rightarrow>
          (case glob (after_download env w url output_path) output_path
                  (temp_filename (py_hash env) url @ (ustr ''*.mp3'')) of
             Inl e \<Rightarrow> False
           | Inr [] \<Rightarrow> False
           | Inr (temp_file # _) \<Rightarrow>
               (case rename_fault env temp_file (output_path, final_filename @ (ustr ''.mp3'')) 0 of
                  None \<Rightarrow> True
                | Some e \<Rightarrow>
                    e = OSError
                    \<and> rename_fault env temp_file (output_path, final_filename @ (ustr ''.mp3'')) 1 = None)))"

definition rename_events :: "env \<Rightarrow> path \<Rightarrow> path \<Rightarrow> event list" where
  "rename_events env temp_file final_path =
     Sleep 500 # Rename temp_file final_path #
       (case rename_fault env temp_file final_path 0 of
          None \<Rightarrow> []
        | Some e \<Rightarrow>
            if e = OSError then
              Sleep 1000 # Rename temp_file final_path #
                (case rename_fault env temp_file final_path 1 of
                   None \<Rightarrow> []
                 | Some e' \<Rightarrow> if e' = OSError then [Sleep 1000] else [])
            else [])"

definition fetch_events :: "env \<Rightarrow> world \<Rightarrow> pystr \<Rightarrow> pystr \<Rightarrow> pystr \<Rightarrow> event list" where
  "fetch_events env w url output_path final_filename =
     Download url (output_path, temp_filename (py_hash env) url) #
       (case fst (ydl_download env url (output_path, temp_filename (py_hash env) url)) of
          Inl e \<Rightarrow> []
        | Inr retcode \<Rightarrow>
            (case glob (after_download env w url output_path) output_path
                    (temp_filename (py_hash env) url @ (ustr ''*.mp3'')) of
               Inl e \<Rightarrow> []
             | Inr [] \<Rightarrow> []
             | Inr (temp_file # _) \<Rightarrow>
                 rename_events env temp_file (output_path, final_filename @ (ustr ''.mp3''))))"

fun is_rename :: "event \<Rightarrow> bool" where
  "is_rename (Rename src dst) = True"
| "is_rename _ = False"

definition events_since :: "world \<Rightarrow> world \<Rightarrow> event list" where
  "events_since w w' = drop (length (trace w)) (trace w')"

section \<open>Normalizer Stage\<close>

text \<open>
  \<open>_normalize_audio\<close>. The swap loop \<open>for attempt in range(3)\<close> unlinks the
  original and renames the temporary file onto it; on an \<open>OSError\<close> it sleeps and
  tries again, and at the last attempt it removes the temporary file and returns
  \<open>False\<close>. A failed transcode removes the temporary file too. The two outer
  \<open>except\<close> clauses (timeout, any exception) return \<open>False\<close> and do nothing else.
  The result is \<open>Some b\<close> for the boolean \<open>b\<close>; \<open>None\<close> stands for falling off
  the end of the loop. \<open>os.getenv('NORMALIZE_AUDIO', 'true').lower() == 'true'\<close> holds
  when the variable is unset and when its value spells \<open>true\<close> in any mix of cases:
  no other code point has \<open>t\<close>, \<open>r\<close>, \<open>u\<close> or \<open>e\<close> as its lower case.
\<close>

definition normalize_enabled :: "env \<Rightarrow> bool" where
  "normalize_enabled env =
     (case getenv_normalize_audio env of
        None \<Rightarrow> True
      | Some v \<Rightarrow>
          (case v of
             [c1, c2, c3, c4] \<Rightarrow>
               c1 \<in> set (ustr ''tT'') \<and> c2 \<in> set (ustr ''rR'')
               \<and> c3 \<in> set (ustr ''uU'') \<and> c4 \<in> set (ustr ''eE'')
           | _ \<Rightarrow> False))"

definition cleanup_temp :: "env \<Rightarrow> world \<Rightarrow> path \<Rightarrow> nat \<Rightarrow> (py_exc + bool option) \<times> world" where
  "cleanup_temp env w temp_path attempt =
     (if exists_file w temp_path then
        (case unlink env w temp_path attempt of
           (Inl e, w1) \<Rightarrow> (Inl e, w1)
         | (Inr u, w1) \<Rightarrow> (Inr (Some False), w1))
      else (Inr (Some False), w))"

fun swap_attempts ::
  "env \<Rightarrow> path \<Rightarrow> path \<Rightarrow> nat list \<Rightarrow> world \<Rightarrow> (py_exc + bool option) \<times> world"
where
  "swap_attempts env file_path temp_path [] w = (Inr None, w)"
| "swap_attempts env file_path temp_path (attempt # rest) w =
     (case (case unlink env w file_path attempt of
              (Inl e, w1) \<Rightarrow> (Inl e, w1)
            | (Inr u, w1) \<Rightarrow> rename env w1 temp_path file_path attempt) of
        (Inr u, w2) \<Rightarrow> (Inr (Some True), w2)
      | (Inl e, w2) \<Rightarrow>
          if e = OSError then
            (if attempt < 2
             then swap_attempts env file_path temp_path rest (log_event (Sleep 1000) w2)
             else cleanup_temp env w2 temp_path attempt)
          else (Inl e, w2))"

definition normalize_audio_try ::
  "env \<Rightarrow> world \<Rightarrow> path \<Rightarrow> (py_exc + bool option) \<times> world"
where
  "normalize_audio_try env w file_path =
     (let temp_path = (fst file_path, (ustr ''norm_'') @ snd file_path);
          w1 = log_event (Ffmpeg file_path temp_path) w
      in case ffmpeg_run env file_path temp_path of
           RunRaised e written \<Rightarrow> (Inl e, if written then add_file temp_path w1 else w1)
         | Exited returncode written \<Rightarrow>
             (let w2 = (if written then add_file temp_path w1 else w1) in
              if returncode = 0 \<and> exists_file w2 temp_path
              then swap_attempts env file_path temp_path [0, 1, 2] (log_event (Sleep 1000) w2)
              else cleanup_temp env w2 temp_path 0))"

definition normalize_audio ::
  "downloader \<Rightarrow> env \<Rightarrow> world \<Rightarrow> path \<Rightarrow> (py_exc + bool option) \<times> world"
where
  "normalize_audio self env w file_path =
     (if ffmpeg_available self = Some True then
        (if normalize_enabled env then
           (if exists_file w file_path then
              (case normalize_audio_try env w file_path of
                 (Inl e, w1) \<Rightarrow> (Inr (Some False), w1)
               | (Inr r, w1) \<Rightarrow> (Inr r, w1))
            else (Inr (Some False), w))
         else (Inr (Some True), w))
      else (Inr (Some True), w))"

section \<open>Pipeline Coordinator\<close>

text \<open>
  \<open>_process_track\<close> has no \<open>try\<close> of its own: what \<open>glob\<close> raises leaves it.
  \<open>download_playlist\<close> submits one unit per track to a pool of 15 threads and then
  asks every future for its result, which raises what the unit raised. With no track
  nothing runs, and a single unit runs alone. Several units run concurrently and their
  calls interleave as the scheduler decides (two units can both pass the pre-check
  before either has written its file), which a function from inputs to one result
  cannot express: the first exception in submission order and the world the pool leaves
  behind are then taken from the environment.
  \<open>_get_all_tracks\<close> reads pages of 100 until the provider names no next page, which
  need not happen: the loop is a partial function and \<open>None\<close> stands for a run that
  never returns.
\<close>

definition process_track ::
  "downloader \<Rightarrow> env \<Rightarrow> world \<Rightarrow> track \<Rightarrow> pystr \<Rightarrow> (py_exc + unit) \<times> world"
where
  "process_track self env w t playlist_path =
     (let name = normalize_filename (track_name t);
          artists = py_join (ustr '', '') (track_artists t);
          artist_name = normalize_filename artists;
          final_filename = artist_name @ (ustr '' - '') @ name;
          filename_pattern = (ustr ''*'') @ name @ (ustr ''*.mp3'')
      in case glob w playlist_path filename_pattern of
           Inl e \<Rightarrow> (Inl e, w)
         | Inr found \<Rightarrow>
             (case found of
                _ # _ \<Rightarrow> (Inr (), w)
              | [] \<Rightarrow>
                  (case get_youtube_url env w name artist_name (Some (duration_ms t div 1000)) of
                     (Inl e, w1) \<Rightarrow> (Inl e, w1)
                   | (Inr None, w1) \<Rightarrow> (Inr (), w1)
                   | (Inr (Some youtube_url), w1) \<Rightarrow>
                       if youtube_url = [] then (Inr (), w1)
                       else
                         (case download_track env w1 youtube_url playlist_path final_filename of
                            (Inl e, w2) \<Rightarrow> (Inl e, w2)
                          | (Inr None, w2) \<Rightarrow> (Inr (), w2)
                          | (Inr (Some downloaded_file), w2) \<Rightarrow>
                              if exists_file w2 downloaded_file then
                                (case normalize_audio self env w2 downloaded_file of
                                   (Inl e, w3) \<Rightarrow> (Inl e, w3)
                                 | (Inr success, w3) \<Rightarrow> (Inr (), w3))
                              else (Inr (), w2)))))"

definition run_pool ::
  "downloader \<Rightarrow> env \<Rightarrow> track list \<Rightarrow> pystr \<Rightarrow> world \<Rightarrow> py_exc option \<times> world"
where
  "run_pool self env tracks playlist_path w =
     (case tracks of
        [] \<Rightarrow> (None, w)
      | [t] \<Rightarrow>
          (case process_track self env w t playlist_path of
             (Inl e, w1) \<Rightarrow> (Some e, w1)
           | (Inr u, w1) \<Rightarrow> (None, w1))
      | _ \<Rightarrow> pool_outcome env tracks playlist_path w)"

partial_function (option) get_all_tracks_loop ::
  "env \<Rightarrow> pystr \<Rightarrow> nat \<Rightarrow> track list \<Rightarrow> world \<Rightarrow> ((py_exc + track list) \<times> world) option"
where
  "get_all_tracks_loop env playlist_id offset tracks w =
     (case sp_playlist_items env playlist_id offset of
        Inl e \<Rightarrow> Some (Inl e, log_event (CatalogItems playlist_id offset) w)
      | Inr (items, has_next) \<Rightarrow>
          if has_next
          then get_all_tracks_loop env playlist_id (offset + 100)
                 (tracks @ List.map_filter (\<lambda>item. item) items)
                 (log_event (CatalogItems playlist_id offset) w)
          else Some (Inr (tracks @ List.map_filter (\<lambda>item. item) items),
                     log_event (CatalogItems playlist_id offset) w))"

declare get_all_tracks_loop.simps [code]

definition get_all_tracks ::
  "env \<Rightarrow> pystr \<Rightarrow> world \<Rightarrow> ((py_exc + track list) \<times> world) option"
where
  "get_all_tracks env playlist_id w = get_all_tracks_loop env playlist_id 0 [] w"

section \<open>Archive Builder\<close>

text \<open>
  \<open>_create_zip\<close>. Opening the archive for writing creates the file; leaving the
  \<open>with\<close> block closes it, also when a write raised. \<open>rmtree\<close> follows the block
  and is not reached when the block raised; it removes the directory, the directories
  below it (their paths continue the directory's with a \<open>/\<close>) and all their files. The \<open>except\<close> clause logs the error and
  the function returns normally.
\<close>

fun zip_write_all :: "env \<Rightarrow> path \<Rightarrow> path list \<Rightarrow> world \<Rightarrow> (py_exc + unit) \<times> world" where
  "zip_write_all env zip_path [] w = (Inr (), w)"
| "zip_write_all env zip_path (file_path # rest) w =
     (case zip_write_fault env zip_path file_path of
        Some e \<Rightarrow> (Inl e, log_event (ZipWrite zip_path file_path) w)
      | None \<Rightarrow> zip_write_all env zip_path rest (log_event (ZipWrite zip_path file_path) w))"

definition zip_with_block :: "env \<Rightarrow> world \<Rightarrow> pystr \<Rightarrow> path \<Rightarrow> (py_exc + unit) \<times> world" where
  "zip_with_block env w playlist_path zip_path =
     (case zip_open_fault env zip_path of
        Some e \<Rightarrow> (Inl e, log_event (ZipOpen zip_path) w)
      | None \<Rightarrow>
          (case (case glob (add_file zip_path (log_event (ZipOpen zip_path) w)) playlist_path (ustr ''*.mp3'') of
                   Inl e \<Rightarrow> (Inl e, add_file zip_path (log_event (ZipOpen zip_path) w))
                 | Inr found \<Rightarrow>
                     zip_write_all env zip_path found
                       (add_file zip_path (log_event (ZipOpen zip_path) w))) of
             (Inl e, w2) \<Rightarrow> (Inl e, log_event (ZipClose zip_path) w2)
           | (Inr u, w2) \<Rightarrow>
               (case zip_close_fault env zip_path of
                  Some e \<Rightarrow> (Inl e, log_event (ZipClose zip_path) w2)
                | None \<Rightarrow> (Inr (), log_event (ZipClose zip_path) w2))))"

definition under_dir :: "pystr \<Rightarrow> pystr \<Rightarrow> bool" where
  "under_dir dir p = (p = dir \<or> take (length dir + 1) p = dir @ (ustr ''/''))"

definition rmtree :: "env \<Rightarrow> world \<Rightarrow> pystr \<Rightarrow> (py_exc + unit) \<times> world" where
  "rmtree env w dir =
     (if dir \<in> set (fs_dirs w) then
        (case rmtree_fault env dir of
           Some (e, removed_files, removed_dirs) \<Rightarrow>
             (Inl e, (log_event (Rmtree dir) w)
                \<lparr>fs_dirs := filter (\<lambda>d. \<not> (under_dir dir d \<and> d \<in> set removed_dirs)) (fs_dirs w),
                 fs_files := filter (\<lambda>p. \<not> (under_dir dir (fst p) \<and> p \<in> set removed_files))
                               (fs_files w)\<rparr>)
         | None \<Rightarrow>
             (Inr (), (log_event (Rmtree dir) w)
                \<lparr>fs_dirs := filter (\<lambda>d. \<not> under_dir dir d) (fs_dirs w),
                 fs_files := filter (\<lambda>p. \<not> under_dir dir (fst p)) (fs_files w)\<rparr>))
      else (Inl OSError, log_event (Rmtree dir) w))"

definition create_zip_try :: "env \<Rightarrow> world \<Rightarrow> pystr \<Rightarrow> path \<Rightarrow> (py_exc + unit) \<times> world" where
  "create_zip_try env w playlist_path zip_path =
     (case zip_with_block env w playlist_path zip_path of
        (Inl e, w1) \<Rightarrow> (Inl e, w1)
      | (Inr u, w1) \<Rightarrow> rmtree env w1 playlist_path)"

definition create_zip :: "env \<Rightarrow> world \<Rightarrow> pystr \<Rightarrow> path \<Rightarrow> (py_exc + unit) \<times> world" where
  "create_zip env w playlist_path zip_path =
     (case create_zip_try env w playlist_path zip_path of
        (Inl e, w1) \<Rightarrow> (Inr (), w1)
      | (Inr u, w1) \<Rightarrow> (Inr (), w1))"

section \<open>Playlist run\<close>

text \<open>
  \<open>download_playlist\<close>. The identifier is the text after the last \<open>/\<close> of the
  URL, up to the first \<open>?\<close>. The result is \<open>None\<close> when an exception reached the
  \<open>except\<close> clause and the archive path otherwise.
\<close>

definition DOWNLOADS_DIR :: pystr where
  "DOWNLOADS_DIR = ustr ''Downloads_playlists''"

definition path_join :: "pystr \<Rightarrow> pystr \<Rightarrow> pystr" where
  "path_join dir name = (if name = [] then dir else dir @ (ustr ''/'') @ name)"

definition playlist_id_of :: "pystr \<Rightarrow> pystr" where
  "playlist_id_of playlist_url =
     takeWhile (\<lambda>c. c \<noteq> cp CHR ''?'') (rev (takeWhile (\<lambda>c. c \<noteq> cp CHR ''/'') (rev playlist_url)))"

definition mkdir_exist_ok :: "env \<Rightarrow> world \<Rightarrow> pystr \<Rightarrow> (py_exc + unit) \<times> world" where
  "mkdir_exist_ok env w dir =
     (if dir \<in> set (fs_dirs w) then (Inr (), log_event (Mkdir dir) w)
      else (case mkdir_fault env dir of
              Some e \<Rightarrow> (Inl e, log_event (Mkdir dir) w)
            | None \<Rightarrow> (Inr (), (log_event (Mkdir dir) w)\<lparr>fs_dirs := fs_dirs w @ [dir]\<rparr>)))"

definition run_units ::
  "downloader \<Rightarrow> env \<Rightarrow> world \<Rightarrow> pystr \<Rightarrow> pystr \<Rightarrow> ((py_exc + path) \<times> world) option"
where
  "run_units self env w playlist_id playlist_name =
     (case get_all_tracks env playlist_id w of
        None \<Rightarrow> None
      | Some (Inl e, w1) \<Rightarrow> Some (Inl e, w1)
      | Some (Inr tracks, w1) \<Rightarrow>
          (case run_pool self env tracks (path_join DOWNLOADS_DIR playlist_name) w1 of
             (Some e, w2) \<Rightarrow> Some (Inl e, w2)
           | (None, w2) \<Rightarrow>
               (case create_zip env w2 (path_join DOWNLOADS_DIR playlist_name)
                       (DOWNLOADS_DIR, playlist_name @ (ustr ''.zip'')) of
                  (Inl e, w3) \<Rightarrow> Some (Inl e, w3)
                | (Inr u, w3) \<Rightarrow> Some (Inr (DOWNLOADS_DIR, playlist_name @ (ustr ''.zip'')), w3))))"

definition download_playlist_try ::
  "downloader \<Rightarrow> env \<Rightarrow> world \<Rightarrow> pystr \<Rightarrow> ((py_exc + path) \<times> world) option"
where
  "download_playlist_try self env w playlist_url =
     (case sp_playlist env (playlist_id_of playlist_url) of
        Inl e \<Rightarrow> Some (Inl e, log_event (CatalogPlaylist (playlist_id_of playlist_url)) w)
      | Inr name \<Rightarrow>
          (case mkdir_exist_ok env (log_event (CatalogPlaylist (playlist_id_of playlist_url)) w)
                  (path_join DOWNLOADS_DIR (normalize_filename name)) of
             (Inl e, w1) \<Rightarrow> Some (Inl e, w1)
           | (Inr u, w1) \<Rightarrow>
               run_units self env w1 (playlist_id_of playlist_url) (normalize_filename name)))"

definition download_playlist ::
  "downloader \<Rightarrow> env \<Rightarrow> world \<Rightarrow> pystr \<Rightarrow> (path option \<times> world) option"
where
  "download_playlist self env w playlist_url =
     (case download_playlist_try self env w playlist_url of
        None \<Rightarrow> None
      | Some (Inl e, w1) \<Rightarrow> Some (None, w1)
      | Some (Inr zip_path, w1) \<Rightarrow> Some (Some zip_path, w1))"

section \<open>Sample inputs\<close>

text \<open>
  Concrete inputs on which the theorems are instantiated: four search results around
  a target of 210 seconds; two search results of which the second has its duration
  present as \<open>None\<close>; an environment in which the search finds nothing, the download
  fails silently (return code 1, no file written) and nothing else fails; and an empty
  world.
\<close>

definition demo_entries :: "entry list" where
  "demo_entries = [\<lparr>entry_url = Some (ustr ''u1''), entry_duration = Duration 230\<rparr>,
                   \<lparr>entry_url = Some (ustr ''u2''), entry_duration = Duration 200\<rparr>,
                   \<lparr>entry_url = Some (ustr ''u3''), entry_duration = DurationMissing\<rparr>,
                   \<lparr>entry_url = Some (ustr ''u4''), entry_duration = Duration 220\<rparr>]"

definition none_entries :: "entry list" where
  "none_entries = [\<lparr>entry_url = Some (ustr ''u1''), entry_duration = Duration 200\<rparr>,
                   \<lparr>entry_url = Some (ustr ''u2''), entry_duration = DurationNone\<rparr>]"

definition quiet_env :: env where
  "quiet_env = \<lparr>py_hash = (\<lambda>u. 7), sp_playlist = (\<lambda>i. Inl ProviderError),
     sp_playlist_items = (\<lambda>i n. Inr ([], False)),
     extract_info = (\<lambda>q. Inr []),
     ydl_download = (\<lambda>u p. (Inr 1, [])),
     rename_fault = (\<lambda>a b n. None), unlink_fault = (\<lambda>a n. None),
     ffmpeg_run = (\<lambda>a b. Exited 0 True),
     getenv_normalize_audio = None, mkdir_fault = (\<lambda>d. None),
     zip_open_fault = (\<lambda>z. None), zip_write_fault = (\<lambda>z f. None),
     zip_close_fault = (\<lambda>z. None), rmtree_fault = (\<lambda>d. None),
     pool_outcome = (\<lambda>tracks d w. (None, w))\<rparr>"

definition empty_world :: world where
  "empty_world = \<lparr>fs_dirs = [], fs_files = [], trace = []\<rparr>"

text \<open>
  An environment in which the download leaves one \<open>.mp3\<close> file under the temporary
  name and the first rename of every file fails with an \<open>OSError\<close>; and a world in
  which another unit, whose temporary name is \<open>temp_70\<close>, has its downloaded file
  waiting for its rename.
\<close>

definition retry_env :: env where
  "retry_env = quiet_env\<lparr>
       ydl_download := (\<lambda>u p. (Inr 0, [snd p @ (ustr ''.mp3'')])),
       rename_fault := (\<lambda>src dst attempt. if attempt = 0 then Some OSError else None)\<rparr>"

definition foreign_temp_world :: world where
  "foreign_temp_world =
     \<lparr>fs_dirs = [ustr ''d''], fs_files = [(ustr ''d'', ustr ''temp_70.mp3'')], trace = []\<rparr>"

text \<open>
  An environment in which the catalog knows the playlist \<open>My: List\<close> with no
  tracks and every write into an archive fails, and a world that holds the playlist's
  directory with one audio file from an earlier run.
\<close>

definition zipfail_env :: env where
  "zipfail_env = quiet_env\<lparr>
       sp_playlist := (\<lambda>playlist_id. Inr (ustr ''My: List'')),
       zip_write_fault := (\<lambda>zip_path file_path. Some OSError)\<rparr>"

definition zip_world :: world where
  "zip_world = \<lparr>fs_dirs = [ustr ''Downloads_playlists/My_ List''],
                 fs_files = [(ustr ''Downloads_playlists/My_ List'', ustr ''A - Song.mp3'')],
                 trace = []\<rparr>"

text \<open>
  Two environments for the Normalizer Stage: in the first the transcoder runs into its
  timeout after it has started to write its output; in the second the transcode
  succeeds and every rename fails with an \<open>OSError\<close> (the new file is locked). The
  world holds one fetched file.
\<close>

definition timeout_env :: env where
  "timeout_env = quiet_env\<lparr>ffmpeg_run := (\<lambda>src dst. RunRaised TimeoutExpired True)\<rparr>"

definition locked_temp_env :: env where
  "locked_temp_env = quiet_env\<lparr>rename_fault := (\<lambda>src dst attempt. Some OSError)\<rparr>"

definition one_file_world :: world where
  "one_file_world = \<lparr>fs_dirs = [ustr ''d''], fs_files = [(ustr ''d'', ustr ''A - T.mp3'')], trace = []\<rparr>"

text \<open>
  Inputs for the coordinator's pre-check: a search that finds one candidate, and
  tracks with the directories of an earlier run. The first directory holds the file
  this program itself writes for the track \<open>Song [Live]\<close> of artist \<open>A\<close>; the
  second holds \<open>A - Hello.mp3\<close>, and the track asked for is \<open>3\<close>; the third
  holds \<open>A - Song [Live.mp3\<close>, whose bracket is never closed, and the track asked
  for is \<open>Song [Live\<close> by another artist.
\<close>

definition found_env :: env where
  "found_env = quiet_env\<lparr>
      extract_info := (\<lambda>q. Inr [\<lparr>entry_url = Some (ustr ''u1''), entry_duration = Duration 200\<rparr>])\<rparr>"

definition live_world :: world where
  "live_world = \<lparr>fs_dirs = [ustr ''d''], fs_files = [(ustr ''d'', ustr ''A - Song [Live].mp3'')], trace = []\<rparr>"

definition live_track :: track where
  "live_track = \<lparr>track_name = ustr ''Song [Live]'', track_artists = [ustr ''A''], duration_ms = 200000\<rparr>"





section \<open>Properties of the Filename Normalizer\<close>

lemma translate_forbidden:
  "translate (maketrans forbidden_chars (ustr ''__________'')) s =
     map (\<lambda>c. if c \<in> set forbidden_chars then cp CHR ''_'' else c) s"
  by (simp add: translate_def maketrans_def forbidden_chars_def ustr_def)

lemma rstrip_prefix: "\<exists>zs. s = rstrip s @ zs"
proof -
  have "rev s = takeWhile is_space (rev s) @ dropWhile is_space (rev s)"
    by simp
  then have "s = rev (dropWhile is_space (rev s)) @ rev (takeWhile is_space (rev s))"
    by (metis rev_append rev_rev_ident)
  then show ?thesis
    unfolding rstrip_def by blast
qed

lemma rstrip_idem: "rstrip (rstrip s) = rstrip s"
  by (simp add: rstrip_def)

lemma hd_rstrip: "rstrip s \<noteq> [] \<Longrightarrow> hd (rstrip s) = hd s"
proof -
  assume ne: "rstrip s \<noteq> []"
  obtain zs where "s = rstrip s @ zs"
    using rstrip_prefix by blast
  then have "hd s = hd (rstrip s @ zs)"
    by simp
  with ne show ?thesis
    by simp
qed

lemma set_strip: "set (strip s) \<subseteq> set s"
proof -
  have "set (rstrip t) \<subseteq> set t" for t
    unfolding rstrip_def by (metis set_dropWhileD set_rev subsetI)
  moreover have "set (lstrip s) \<subseteq> set s"
    unfolding lstrip_def by (meson set_dropWhileD subsetI)
  ultimately show ?thesis
    unfolding strip_def by blast
qed

lemma strip_idem: "strip (strip s) = strip s"
proof -
  let ?t = "lstrip s"
  let ?r = "rstrip ?t"
  have "lstrip ?r = ?r"
  proof (cases "?r = []")
    case True
    then show ?thesis by (simp add: lstrip_def)
  next
    case False
    then have h: "hd ?r = hd ?t"
      by (rule hd_rstrip)
    from False have "?t \<noteq> []"
      by (auto simp: rstrip_def)
    then have "\<not> is_space (hd ?t)"
      unfolding lstrip_def by (rule hd_dropWhile)
    with h show ?thesis
      by (simp add: lstrip_def dropWhile_eq_self_iff)
  qed
  then show ?thesis
    by (simp add: strip_def rstrip_idem)
qed

lemma translate_clean:
  "set s \<inter> set forbidden_chars = {} \<Longrightarrow>
   translate (maketrans forbidden_chars (ustr ''__________'')) s = s"
  unfolding translate_forbidden by (induction s) auto

lemma translate_no_forbidden:
  "set (translate (maketrans forbidden_chars (ustr ''__________'')) s) \<inter> set forbidden_chars = {}"
  unfolding translate_forbidden by (auto simp: forbidden_chars_def)

lemma normalize_filename_clean: "set (normalize_filename s) \<inter> set forbidden_chars = {}"
  using translate_no_forbidden [of s] set_strip unfolding normalize_filename_def by blast

text \<open>
  C6, as the code has it. \<open>normalize_filename\<close> replaces every character of its table
  by an underscore, leaves every other character as it is, then strips whitespace at
  both ends; the result holds none of the table's characters and a second application
  changes nothing. The table is the forbidden set of the specification together with
  the dot.
\<close>

theorem normalize_filename_correct:
  "normalize_filename s =
     strip (map (\<lambda>c. if c \<in> set spec_forbidden_chars \<or> c = cp CHR ''.'' then cp CHR ''_'' else c) s)
   \<and> set (normalize_filename s) \<inter> (set spec_forbidden_chars \<union> {cp CHR ''.''}) = {}
   \<and> normalize_filename (normalize_filename s) = normalize_filename s
   \<and> normalize_filename [] = []"
proof -
  have eq: "set spec_forbidden_chars \<union> {cp CHR ''.''} = set forbidden_chars"
    by (auto simp: spec_forbidden_chars_def forbidden_chars_def)
  have a: "normalize_filename s =
     strip (map (\<lambda>c. if c \<in> set spec_forbidden_chars \<or> c = cp CHR ''.'' then cp CHR ''_'' else c) s)"
  proof -
    have "(c \<in> set forbidden_chars) = (c \<in> set spec_forbidden_chars \<or> c = cp CHR ''.'')" for c
      using eq by blast
    then show ?thesis
      by (simp add: normalize_filename_def translate_forbidden)
  qed
  have b: "set (normalize_filename s) \<inter> (set spec_forbidden_chars \<union> {cp CHR ''.''}) = {}"
    unfolding eq by (rule normalize_filename_clean)
  have "translate (maketrans forbidden_chars (ustr ''__________'')) (normalize_filename s)
          = normalize_filename s"
    by (rule translate_clean) (rule normalize_filename_clean)
  then have c: "normalize_filename (normalize_filename s) = normalize_filename s"
    by (metis normalize_filename_def strip_idem)
  have d: "normalize_filename [] = []"
    by (simp add: normalize_filename_def translate_def strip_def lstrip_def rstrip_def)
  from a b c d show ?thesis
    by blast
qed

text \<open>
  Whitespace beyond ASCII is stripped too: an em space (U+2003) in front and an
  ideographic space (U+3000) behind.
\<close>

lemma normalize_filename_unicode_example:
  "normalize_filename ([8195] @ ustr ''a.b'' @ [12288]) = ustr ''a_b''"
  by code_simp

text \<open>
  The dot is not in the forbidden set the specification lists, and the code replaces it:
  on \<open>a.b\<close> the code and the specification's normalizer differ.
\<close>

theorem normalize_filename_dot_counterexample:
  "cp CHR ''.'' \<notin> set spec_forbidden_chars
   \<and> normalize_filename (ustr ''a.b'') = ustr ''a_b''
   \<and> spec_normalize (ustr ''a.b'') = ustr ''a.b''"
  by (simp add: spec_forbidden_chars_def normalize_filename_def spec_normalize_def
      translate_def maketrans_def forbidden_chars_def strip_def lstrip_def rstrip_def
      is_space_def ustr_def)

section \<open>Properties of the Candidate Resolver\<close>

lemma duration_key_number:
  "has_number_or_missing e \<Longrightarrow> duration_key d e = Inr \<bar>duration_or_zero e - d\<bar>"
  by (cases "entry_duration e") (simp_all add: has_number_or_missing_def duration_or_zero_def)

lemma py_min_from_first_closest:
  assumes "list_all has_number_or_missing xs"
    and "i < length pre" and "pre ! i = best"
    and "bk = \<bar>duration_or_zero best - d\<bar>"
    and "first_closest d pre i"
  shows "\<exists>j. py_min_from (duration_key d) best bk xs = Inr ((pre @ xs) ! j)
             \<and> first_closest d (pre @ xs) j"
  using assms
proof (induction xs arbitrary: pre i best bk)
  case Nil
  then show ?case by auto
next
  case (Cons x xs)
  let ?k = "\<bar>duration_or_zero x - d\<bar>"
  have kx: "duration_key d x = Inr ?k"
    using Cons.prems(1) by (simp add: duration_key_number del: duration_key.simps)
  have rest: "list_all has_number_or_missing xs"
    using Cons.prems(1) by simp
  show ?case
  proof (cases "?k < bk")
    case True
    have fc: "first_closest d (pre @ [x]) (length pre)"
      using True Cons.prems(2-5)
      by (auto simp: first_closest_def list_all_iff nth_append)
    have "\<exists>j. py_min_from (duration_key d) x ?k xs = Inr (((pre @ [x]) @ xs) ! j)
             \<and> first_closest d ((pre @ [x]) @ xs) j"
      by (rule Cons.IH [OF rest _ _ _ fc]) (simp_all add: nth_append)
    with True kx show ?thesis
      by (simp del: duration_key.simps)
  next
    case False
    have fc: "first_closest d (pre @ [x]) i"
      using False Cons.prems(2-5)
      by (auto simp: first_closest_def list_all_iff nth_append)
    have "\<exists>j. py_min_from (duration_key d) best bk xs = Inr (((pre @ [x]) @ xs) ! j)
             \<and> first_closest d ((pre @ [x]) @ xs) j"
      by (rule Cons.IH [OF rest _ _ Cons.prems(4) fc])
         (use Cons.prems(2,3) in \<open>simp_all add: nth_append\<close>)
    with False kx show ?thesis
      by (simp del: duration_key.simps)
  qed
qed

lemma py_min_first_closest:
  assumes "entries \<noteq> []" and "list_all has_number_or_missing entries"
  shows "\<exists>j. py_min (duration_key d) entries = Inr (entries ! j) \<and> first_closest d entries j"
proof -
  obtain x xs where e: "entries = x # xs"
    using assms(1) by (cases entries) auto
  have kx: "duration_key d x = Inr \<bar>duration_or_zero x - d\<bar>"
    using assms(2) e by (simp add: duration_key_number del: duration_key.simps)
  have fc: "first_closest d [x] 0"
    by (simp add: first_closest_def)
  have "\<exists>j. py_min_from (duration_key d) x \<bar>duration_or_zero x - d\<bar> xs = Inr (([x] @ xs) ! j)
             \<and> first_closest d ([x] @ xs) j"
    by (rule py_min_from_first_closest [OF _ _ _ _ fc]) (use assms(2) e in simp_all)
  with kx e show ?thesis
    by (simp del: duration_key.simps)
qed

text \<open>
  On the lists whose durations are all numbers or missing, the resolver returns the
  locator of the first candidate that is closest to a positive target.
\<close>

lemma get_youtube_url_closest:
  assumes "0 < d"
    and "extract_info env (search_query name artist) = Inr entries"
    and "entries \<noteq> []"
    and "list_all has_number_or_missing entries"
  shows "\<exists>j. fst (get_youtube_url env w name artist (Some d)) = Inr (entry_url (entries ! j))
             \<and> first_closest d entries j"
proof -
  obtain j where j: "py_min (duration_key d) entries = Inr (entries ! j)" "first_closest d entries j"
    using py_min_first_closest [OF assms(3,4)] by blast
  obtain x xs where e: "entries = x # xs"
    using assms(3) by (cases entries) auto
  have "fst (get_youtube_url env w name artist (Some d)) = Inr (entry_url (entries ! j))"
    using assms(1,2) j(1) unfolding e
    by (simp add: get_youtube_url_def get_youtube_url_try_def Let_def
        del: py_min.simps duration_key.simps)
  with j(2) show ?thesis by blast
qed

text \<open>
  C5 does not hold of the code. The first of two candidates has exactly the target's
  duration of 200 seconds; the second has its duration present as \<open>None\<close>, which
  \<open>x.get('duration', 0)\<close> hands on instead of 0. The subtraction raises, the
  \<open>except\<close> clause returns \<open>None\<close>, and the resolver names no candidate, where
  the first candidate is the closest one with the missing duration counted as 0.
\<close>

theorem get_youtube_url_none_duration:
  "first_closest 200 none_entries 0
   \<and> entry_url (none_entries ! 0) = Some (ustr ''u1'')
   \<and> fst (get_youtube_url (quiet_env\<lparr>extract_info := (\<lambda>q. Inr none_entries)\<rparr>) empty_world
            (ustr ''Title'') (ustr ''Artist'') (Some 200)) = Inr None"
  by code_simp

text \<open>
  C8. When the search returns a non-empty list and the target duration is 0 or absent,
  the resolver returns the locator of the first candidate, whatever the durations.
\<close>

theorem get_youtube_url_first:
  assumes "extract_info env (search_query name artist) = Inr entries"
    and "entries \<noteq> []"
    and "duration = None \<or> duration = Some 0"
  shows "fst (get_youtube_url env w name artist duration) = Inr (entry_url (hd entries))"
  using assms
  by (auto simp: get_youtube_url_def get_youtube_url_try_def Let_def split: list.splits)

text \<open>
  On the sample list, with target 0 and with no target, the first locator comes back.
\<close>

theorem get_youtube_url_first_witness:
  "fst (get_youtube_url (quiet_env\<lparr>extract_info := (\<lambda>q. Inr demo_entries)\<rparr>) empty_world
          (ustr ''Title'') (ustr ''Artist'') (Some 0)) = Inr (Some (ustr ''u1''))
   \<and> fst (get_youtube_url (quiet_env\<lparr>extract_info := (\<lambda>q. Inr demo_entries)\<rparr>) empty_world
          (ustr ''Title'') (ustr ''Artist'') None) = Inr (Some (ustr ''u1''))"
proof -
  let ?env = "quiet_env\<lparr>extract_info := (\<lambda>q. Inr demo_entries)\<rparr>"
  have h2: "extract_info ?env (search_query (ustr ''Title'') (ustr ''Artist'')) = Inr demo_entries"
    by simp
  have h3: "demo_entries \<noteq> []"
    by (simp add: demo_entries_def)
  have "fst (get_youtube_url ?env empty_world (ustr ''Title'') (ustr ''Artist'') (Some 0))
          = Inr (entry_url (hd demo_entries))"
    by (rule get_youtube_url_first [OF h2 h3]) simp
  moreover have "fst (get_youtube_url ?env empty_world (ustr ''Title'') (ustr ''Artist'') None)
          = Inr (entry_url (hd demo_entries))"
    by (rule get_youtube_url_first [OF h2 h3]) simp
  ultimately show ?thesis
    by (simp add: demo_entries_def)
qed

section \<open>Properties of the Track Fetcher\<close>

lemma str_nat_nonempty: "str_nat n \<noteq> []"
  by (subst str_nat.simps) simp

lemma last_str_nat: "last (str_nat n) = 48 + n mod 10"
  by (subst str_nat.simps) simp

lemma butlast_str_nat: "butlast (str_nat n) = (if n < 10 then [] else str_nat (n div 10))"
  by (subst str_nat.simps) simp

lemma str_nat_inj: "str_nat m = str_nat n \<Longrightarrow> m = n"
proof (induction m arbitrary: n rule: less_induct)
  case (less m)
  have l: "m mod 10 = n mod 10"
    using less.prems last_str_nat [of m] last_str_nat [of n] by simp
  have b: "butlast (str_nat m) = butlast (str_nat n)"
    using less.prems by simp
  show ?case
  proof (cases "m < 10")
    case True
    with b have "n < 10"
      using str_nat_nonempty [of "n div 10"] by (auto simp: butlast_str_nat split: if_splits)
    with True l show ?thesis by simp
  next
    case False
    with b have n: "\<not> n < 10"
      using str_nat_nonempty [of "m div 10"] by (auto simp: butlast_str_nat split: if_splits)
    with False b have "str_nat (m div 10) = str_nat (n div 10)"
      by (simp add: butlast_str_nat)
    moreover from False have "m div 10 < m"
      by simp
    ultimately have "m div 10 = n div 10"
      by (rule less.IH [rotated])
    with l show ?thesis
      by (metis div_mult_mod_eq)
  qed
qed

text \<open>
  C3, as the code has it. Two locators get the same temporary name exactly when their
  hashes agree modulo 10000: the name is decided by the residue, and there are 10000
  names.
\<close>

theorem temp_filename_equal_iff:
  "(temp_filename h u = temp_filename h v) = (h u mod 10000 = h v mod 10000)"
proof -
  have nn: "0 \<le> h x mod 10000" for x
    by simp
  have nl: "\<not> h x mod 10000 < 0" for x
    by (simp add: not_less)
  have "str_int (h u mod 10000) = str_int (h v mod 10000) \<Longrightarrow> h u mod 10000 = h v mod 10000"
  proof -
    assume "str_int (h u mod 10000) = str_int (h v mod 10000)"
    then have "str_nat (nat (h u mod 10000)) = str_nat (nat (h v mod 10000))"
      using nl by (simp add: str_int_def)
    then have "nat (h u mod 10000) = nat (h v mod 10000)"
      by (rule str_nat_inj)
    with nn [of u] nn [of v] show ?thesis
      by linarith
  qed
  then show ?thesis
    by (auto simp: temp_filename_def)
qed

text \<open>
  Whatever the hash function, the temporary names cannot all differ: the locators are
  infinitely many and the names are 10000. No hash makes the names of every two distinct
  locators distinct.
\<close>

theorem temp_filename_collision_counterexample:
  "\<not> (\<exists>h. \<forall>u v. u \<noteq> v \<longrightarrow> temp_filename h u \<noteq> temp_filename h v)"
proof
  assume "\<exists>h. \<forall>u v. u \<noteq> v \<longrightarrow> temp_filename h u \<noteq> temp_filename h v"
  then obtain h where h: "\<forall>u v. u \<noteq> v \<longrightarrow> temp_filename h u \<noteq> temp_filename h v"
    by blast
  then have i: "inj (temp_filename h)"
    by (auto simp: inj_on_def)
  have "range (temp_filename h) \<subseteq> (\<lambda>k. (ustr ''temp_'') @ str_int k) ` {0..<10000}"
    by (auto simp: temp_filename_def)
  then have "finite (range (temp_filename h))"
    by (rule finite_subset) simp
  then have "finite (UNIV :: pystr set)"
    using i by (rule finite_imageD)
  then show False
    by (simp add: infinite_UNIV_listI)
qed

lemma fs_files_log_event [simp]: "fs_files (log_event e w) = fs_files w"
  by (simp add: log_event_def)

lemma trace_log_event [simp]: "trace (log_event e w) = trace w @ [e]"
  by (simp add: log_event_def)

lemma trace_add_file [simp]: "trace (add_file p w) = trace w"
  by (simp add: add_file_def)

lemma trace_fold_add_file [simp]: "trace (fold (\<lambda>n. add_file (d, n)) ns w) = trace w"
  by (induction ns arbitrary: w) simp_all

lemma trace_after_download:
  "trace (after_download env w url output_path)
     = trace w @ [Download url (output_path, temp_filename (py_hash env) url)]"
  by (simp add: after_download_def)

lemma glob_member: "glob w dir pat = Inr (f # fs) \<Longrightarrow> f \<in> set (fs_files w)"
proof -
  assume "glob w dir pat = Inr (f # fs)"
  then have "filter (\<lambda>p. fst p = dir \<and> fnmatch (snd p) pat) (fs_files w) = f # fs"
    by (simp add: glob_def split: if_splits)
  then have "f \<in> set (filter (\<lambda>p. fst p = dir \<and> fnmatch (snd p) pat) (fs_files w))"
    by simp
  then show ?thesis
    by simp
qed

lemma rename_existing:
  "src \<in> set (fs_files w) \<Longrightarrow>
   rename env w src dst a =
     (case rename_fault env src dst a of
        Some e \<Rightarrow> (Inl e, log_event (Rename src dst) w)
      | None \<Rightarrow>
          if src = dst then (Inr (), log_event (Rename src dst) w)
          else (Inr (), (log_event (Rename src dst) w)
                  \<lparr>fs_files := map (\<lambda>p. if p = src then dst else p) (removeAll dst (fs_files w))\<rparr>))"
  by (simp add: rename_def Let_def split: option.splits)

lemma rename_ok_exists:
  "src \<in> set (fs_files w) \<Longrightarrow> rename env w src dst a = (Inr u, w') \<Longrightarrow> exists_file w' dst"
  by (auto simp: rename_existing exists_file_def split: option.splits if_splits)

lemma rename_trace:
  "rename env w src dst a = (r, w') \<Longrightarrow> trace w' = trace w @ [Rename src dst]"
  by (auto simp: rename_def Let_def split: option.splits if_splits)

lemma rename_fail_files:
  "rename env w src dst a = (Inl e, w') \<Longrightarrow> fs_files w' = fs_files w"
  by (auto simp: rename_def Let_def split: option.splits if_splits)

lemma rename_attempts_two:
  assumes "t \<in> set (fs_files w)"
  shows "rename_attempts env t f [0, 1] w =
     (case rename_fault env t f 0 of
        None \<Rightarrow> (Inr (Some f), snd (rename env w t f 0))
      | Some e \<Rightarrow>
          if e = OSError then
            (case rename_fault env t f 1 of
               None \<Rightarrow> (Inr (Some f),
                          snd (rename env (log_event (Sleep 1000) (log_event (Rename t f) w)) t f 1))
             | Some e' \<Rightarrow>
                 if e' = OSError
                 then (Inr None, log_event (Sleep 1000) (log_event (Rename t f)
                         (log_event (Sleep 1000) (log_event (Rename t f) w))))
                 else (Inl e', log_event (Rename t f)
                         (log_event (Sleep 1000) (log_event (Rename t f) w))))
          else (Inl e, log_event (Rename t f) w))"
  using assms by (auto simp: rename_existing split: option.splits)

lemma trace_snd_rename [simp]: "trace (snd (rename env w src dst a)) = trace w @ [Rename src dst]"
  using rename_trace [of env w src dst a] by (metis prod.collapse)

lemma exists_snd_rename:
  "src \<in> set (fs_files w) \<Longrightarrow> rename_fault env src dst a = None \<Longrightarrow>
   exists_file (snd (rename env w src dst a)) dst"
  by (auto simp: rename_existing exists_file_def)

text \<open>
  What the fetcher does in every case: it never raises; it returns the final path
  exactly under the condition above, and then the file exists at that path; and its
  calls are those of \<open>fetch_events\<close>, so the rename is tried at most twice and a sleep
  of one second follows every attempt that failed with an \<open>OSError\<close>.
\<close>

lemma download_track_contract:
  "fst (download_track env w url output_path final_filename) =
      (if temp_found_and_renamed env w url output_path final_filename
       then Inr (Some (output_path, final_filename @ ustr ''.mp3'')) else Inr None)
   \<and> (temp_found_and_renamed env w url output_path final_filename \<longrightarrow>
        exists_file (snd (download_track env w url output_path final_filename))
          (output_path, final_filename @ ustr ''.mp3''))
   \<and> trace (snd (download_track env w url output_path final_filename)) =
        trace w @ fetch_events env w url output_path final_filename"
proof (cases "fst (ydl_download env url (output_path, temp_filename (py_hash env) url))")
  case (Inl e)
  then show ?thesis
    by (simp add: download_track_def download_track_try_def temp_found_and_renamed_def
        fetch_events_def trace_after_download)
next
  case (Inr retcode)
  let ?w2 = "after_download env w url output_path"
  let ?final = "(output_path, final_filename @ ustr ''.mp3'')"
  show ?thesis
  proof (cases "glob ?w2 output_path (temp_filename (py_hash env) url @ ustr ''*.mp3'')")
    case (Inl e)
    with Inr show ?thesis
      by (simp add: download_track_def download_track_try_def temp_found_and_renamed_def
          fetch_events_def trace_after_download)
  next
    case found: (Inr found)
    show ?thesis
    proof (cases found)
      case Nil
      with Inr found show ?thesis
        by (simp add: download_track_def download_track_try_def temp_found_and_renamed_def
            fetch_events_def trace_after_download)
    next
      case (Cons t ts)
      with found have "t \<in> set (fs_files ?w2)"
        using glob_member by blast
      then have m: "t \<in> set (fs_files (log_event (Sleep 500) ?w2))"
        by simp
      note two = rename_attempts_two [OF m, of env ?final]
      have ex0: "rename_fault env t ?final 0 = None \<Longrightarrow>
          exists_file (snd (rename env (log_event (Sleep 500) ?w2) t ?final 0)) ?final"
        by (rule exists_snd_rename [OF m])
      have ex1: "rename_fault env t ?final 1 = None \<Longrightarrow>
          exists_file (snd (rename env (log_event (Sleep 1000)
             (log_event (Rename t ?final) (log_event (Sleep 500) ?w2))) t ?final 1)) ?final"
        by (rule exists_snd_rename) (use m in simp_all)
      show ?thesis
      proof (cases "rename_fault env t ?final 0")
        case n0: None
        with Inr found Cons two ex0 show ?thesis
          by (simp add: download_track_def download_track_try_def temp_found_and_renamed_def
              fetch_events_def rename_events_def trace_after_download
              del: rename_attempts.simps)
      next
        case s0: (Some e0)
        show ?thesis
        proof (cases "e0 = OSError")
          case False
          with Inr found Cons two s0 show ?thesis
            by (simp add: download_track_def download_track_try_def temp_found_and_renamed_def
                fetch_events_def rename_events_def trace_after_download
                del: rename_attempts.simps)
        next
          case True
          show ?thesis
          proof (cases "rename_fault env t ?final 1")
            case n1: None
            with Inr found Cons two s0 True ex1 show ?thesis
              by (simp add: download_track_def download_track_try_def
                  temp_found_and_renamed_def fetch_events_def rename_events_def
                  trace_after_download del: rename_attempts.simps)
          next
            case s1: (Some e1)
            with Inr found Cons two s0 True show ?thesis
              by (simp add: download_track_def download_track_try_def
                  temp_found_and_renamed_def fetch_events_def rename_events_def
                  trace_after_download del: rename_attempts.simps)
          qed
        qed
      qed
    qed
  qed
qed

lemma rename_events_bounded:
  "length (filter is_rename (rename_events env t f)) \<le> 2"
  by (simp add: rename_events_def split: option.splits)

text \<open>
  On the sample whose first rename fails, the second attempt follows a sleep of one
  second and the final path comes back.
\<close>

lemma download_track_retry_example:
  "download_track retry_env empty_world (ustr ''u'') (ustr ''d'') (ustr ''A - T'') =
     (Inr (Some (ustr ''d'', ustr ''A - T.mp3'')),
      \<lparr>fs_dirs = [], fs_files = [(ustr ''d'', ustr ''A - T.mp3'')],
       trace = [Download (ustr ''u'') (ustr ''d'', ustr ''temp_7''), Sleep 500,
                Rename (ustr ''d'', ustr ''temp_7.mp3'') (ustr ''d'', ustr ''A - T.mp3''),
                Sleep 1000,
                Rename (ustr ''d'', ustr ''temp_7.mp3'') (ustr ''d'', ustr ''A - T.mp3'')]\<rparr>)"
  by code_simp

text \<open>
  C4 does not hold of the code. The download of \<open>u\<close> fails: with \<open>ignoreerrors\<close>
  it returns the code 1, raises nothing and writes no file. The temporary name of
  \<open>u\<close> is \<open>temp_7\<close>, the pattern \<open>temp_7*.mp3\<close> also matches the file
  \<open>temp_70.mp3\<close> that another unit has downloaded, and \<open>_download_track\<close> renames
  that file and returns the final path instead of \<open>None\<close>.
\<close>

theorem download_track_foreign_temp:
  "ydl_download quiet_env (ustr ''u'') (ustr ''d'', temp_filename (py_hash quiet_env) (ustr ''u''))
     = (Inr 1, [])
   \<and> temp_filename (py_hash quiet_env) (ustr ''u'') = ustr ''temp_7''
   \<and> download_track quiet_env foreign_temp_world (ustr ''u'') (ustr ''d'') (ustr ''A - T'') =
       (Inr (Some (ustr ''d'', ustr ''A - T.mp3'')),
        \<lparr>fs_dirs = [ustr ''d''], fs_files = [(ustr ''d'', ustr ''A - T.mp3'')],
         trace = [Download (ustr ''u'') (ustr ''d'', ustr ''temp_7''), Sleep 500,
                  Rename (ustr ''d'', ustr ''temp_70.mp3'') (ustr ''d'', ustr ''A - T.mp3'')]\<rparr>)"
  by code_simp

section \<open>Properties of the Archive Builder\<close>

lemma fs_dirs_log_event [simp]: "fs_dirs (log_event e w) = fs_dirs w"
  by (simp add: log_event_def)

lemma fs_dirs_add_file [simp]: "fs_dirs (add_file p w) = fs_dirs w"
  by (simp add: add_file_def)

lemma set_files_add_file [simp]: "set (fs_files (add_file p w)) = insert p (set (fs_files w))"
  by (auto simp: add_file_def)

lemma zip_write_all_fs:
  "fs_dirs (snd (zip_write_all env z fs w)) = fs_dirs w
   \<and> fs_files (snd (zip_write_all env z fs w)) = fs_files w"
  by (induction fs arbitrary: w) (auto split: option.splits)

lemma zip_with_block_fs:
  "fs_dirs (snd (zip_with_block env w d z)) = fs_dirs w
   \<and> set (fs_files (snd (zip_with_block env w d z))) =
       (case zip_open_fault env z of
          None \<Rightarrow> insert z (set (fs_files w))
        | Some e \<Rightarrow> set (fs_files w))"
proof (cases "zip_open_fault env z")
  case (Some e)
  then show ?thesis
    by (simp add: zip_with_block_def)
next
  case None
  let ?w1 = "add_file z (log_event (ZipOpen z) w)"
  show ?thesis
  proof (cases "glob ?w1 d (ustr ''*.mp3'')")
    case (Inl e)
    with None show ?thesis
      by (simp add: zip_with_block_def)
  next
    case (Inr found)
    obtain r w2 where r: "zip_write_all env z found ?w1 = (r, w2)"
      by (cases "zip_write_all env z found ?w1") auto
    then have "fs_dirs w2 = fs_dirs ?w1 \<and> fs_files w2 = fs_files ?w1"
      using zip_write_all_fs [of env z found ?w1] by simp
    with None Inr r show ?thesis
      by (cases r) (auto simp: zip_with_block_def split: option.splits)
  qed
qed

text \<open>
  C2, as the code has it. When the \<open>with\<close> block of \<open>_create_zip\<close> raises (on
  opening the archive, listing the directory, writing an entry or closing),
  \<open>_create_zip\<close> catches the error and returns normally, no directory and no file
  is removed, and an archive file exists afterwards exactly when one existed before or
  the archive could be opened.
\<close>

theorem create_zip_error_keeps_directory:
  assumes "fst (zip_with_block env w playlist_path zip_path) = Inl e"
  shows "fst (create_zip env w playlist_path zip_path) = Inr ()
     \<and> fs_dirs (snd (create_zip env w playlist_path zip_path)) = fs_dirs w
     \<and> set (fs_files w) \<subseteq> set (fs_files (snd (create_zip env w playlist_path zip_path)))
     \<and> exists_file (snd (create_zip env w playlist_path zip_path)) zip_path
         = (exists_file w zip_path \<or> zip_open_fault env zip_path = None)"
proof -
  obtain w1 where b: "zip_with_block env w playlist_path zip_path = (Inl e, w1)"
    using assms by (cases "zip_with_block env w playlist_path zip_path") auto
  then have c: "create_zip env w playlist_path zip_path = (Inr (), w1)"
    by (simp add: create_zip_def create_zip_try_def)
  from b have "fs_dirs w1 = fs_dirs w"
    and f: "set (fs_files w1) =
       (case zip_open_fault env zip_path of
          None \<Rightarrow> insert zip_path (set (fs_files w))
        | Some e \<Rightarrow> set (fs_files w))"
    using zip_with_block_fs [of env w playlist_path zip_path] by simp_all
  with c show ?thesis
    by (auto simp: exists_file_def split: option.splits)
qed

text \<open>
  With a failing write, the directory and its audio file are still there.
\<close>

theorem create_zip_error_keeps_directory_witness:
  "fst (zip_with_block zipfail_env zip_world (ustr ''Downloads_playlists/My_ List'')
          (ustr ''Downloads_playlists'', ustr ''My_ List.zip'')) = Inl OSError
   \<and> fs_dirs (snd (create_zip zipfail_env zip_world (ustr ''Downloads_playlists/My_ List'')
          (ustr ''Downloads_playlists'', ustr ''My_ List.zip''))) = [ustr ''Downloads_playlists/My_ List'']
   \<and> exists_file (snd (create_zip zipfail_env zip_world (ustr ''Downloads_playlists/My_ List'')
          (ustr ''Downloads_playlists'', ustr ''My_ List.zip''))) (ustr ''Downloads_playlists/My_ List'', ustr ''A - Song.mp3'')"
proof -
  have h: "fst (zip_with_block zipfail_env zip_world (ustr ''Downloads_playlists/My_ List'')
          (ustr ''Downloads_playlists'', ustr ''My_ List.zip'')) = Inl OSError"
    by code_simp
  have d: "fs_dirs zip_world = [ustr ''Downloads_playlists/My_ List'']"
    and m: "(ustr ''Downloads_playlists/My_ List'', ustr ''A - Song.mp3'') \<in> set (fs_files zip_world)"
    by (simp_all add: zip_world_def)
  from create_zip_error_keeps_directory [OF h] h d m show ?thesis
    by (auto simp: exists_file_def)
qed

text \<open>
  With a failing write the archive file, opened before the write, stays on disk, and
  \<open>download_playlist\<close> returns its path: the error never leaves \<open>_create_zip\<close>,
  and \<open>return zip_path\<close> follows the call unconditionally.
\<close>

theorem create_zip_error_counterexample:
  "fst (zip_with_block zipfail_env zip_world (ustr ''Downloads_playlists/My_ List'')
          (ustr ''Downloads_playlists'', ustr ''My_ List.zip'')) = Inl OSError
   \<and> exists_file (snd (create_zip zipfail_env zip_world (ustr ''Downloads_playlists/My_ List'')
          (ustr ''Downloads_playlists'', ustr ''My_ List.zip''))) (ustr ''Downloads_playlists'', ustr ''My_ List.zip'')
   \<and> (case download_playlist \<lparr>ffmpeg_available = Some True\<rparr> zipfail_env zip_world
              (ustr ''https://open.spotify.com/playlist/abc123?si=xyz'') of
         Some (Some zip_path, w') \<Rightarrow>
           zip_path = (ustr ''Downloads_playlists'', ustr ''My_ List.zip'')
           \<and> exists_file w' zip_path
           \<and> filter (\<lambda>ev. ev = Rmtree (ustr ''Downloads_playlists/My_ List'')) (trace w') = []
       | _ \<Rightarrow> False)"
  by code_simp

section \<open>Properties of the playlist run\<close>

text \<open>
  C9. When the catalog raises on the playlist lookup, \<open>download_playlist\<close> returns
  \<open>None\<close>; the lookup is the only call made, so no search and no download happen,
  and the directories and files are what they were: no output directory is created.
\<close>

theorem download_playlist_catalog_error:
  assumes "sp_playlist env (playlist_id_of playlist_url) = Inl e"
  shows "\<exists>w'. download_playlist self env w playlist_url = Some (None, w')
     \<and> fs_dirs w' = fs_dirs w
     \<and> fs_files w' = fs_files w
     \<and> events_since w w' = [CatalogPlaylist (playlist_id_of playlist_url)]"
  using assms
  by (simp add: download_playlist_def download_playlist_try_def events_since_def log_event_def)

text \<open>
  A lookup of the unknown playlist \<open>nope\<close> ends the run at once.
\<close>

theorem download_playlist_catalog_error_witness:
  "sp_playlist quiet_env (playlist_id_of (ustr ''https://open.spotify.com/playlist/nope?si=1'')) = Inl ProviderError
   \<and> (\<exists>w'. download_playlist \<lparr>ffmpeg_available = Some True\<rparr> quiet_env zip_world
              (ustr ''https://open.spotify.com/playlist/nope?si=1'') = Some (None, w')
        \<and> fs_dirs w' = fs_dirs zip_world
        \<and> fs_files w' = fs_files zip_world
        \<and> events_since zip_world w' = [CatalogPlaylist (ustr ''nope'')])"
proof -
  have h: "sp_playlist quiet_env (playlist_id_of (ustr ''https://open.spotify.com/playlist/nope?si=1''))
             = Inl ProviderError"
    by (simp add: quiet_env_def)
  have i: "playlist_id_of (ustr ''https://open.spotify.com/playlist/nope?si=1'') = ustr ''nope''"
    by code_simp
  from download_playlist_catalog_error [OF h, of "\<lparr>ffmpeg_available = Some True\<rparr>" zip_world] h i
  show ?thesis
    by simp
qed

section \<open>Properties of the Normalizer Stage\<close>

text \<open>
  C1 does not hold of the code. When the transcoder times out after it has begun to
  write, \<open>_normalize_audio\<close> returns \<open>False\<close> from its \<open>except\<close> clause and the
  temporary \<open>norm_\<close> file stays beside the original. When the transcode succeeds but
  the rename fails, the original has already been unlinked; the later attempts fail on
  the missing original, the last one removes the temporary file, and no file is left at
  the original path.
\<close>

theorem normalize_audio_leftovers:
  "normalize_audio \<lparr>ffmpeg_available = Some True\<rparr> timeout_env one_file_world (ustr ''d'', ustr ''A - T.mp3'')
     = (Inr (Some False),
        \<lparr>fs_dirs = [ustr ''d''],
         fs_files = [(ustr ''d'', ustr ''A - T.mp3''), (ustr ''d'', ustr ''norm_A - T.mp3'')],
         trace = [Ffmpeg (ustr ''d'', ustr ''A - T.mp3'') (ustr ''d'', ustr ''norm_A - T.mp3'')]\<rparr>)
   \<and> fst (normalize_audio \<lparr>ffmpeg_available = Some True\<rparr> locked_temp_env one_file_world
            (ustr ''d'', ustr ''A - T.mp3'')) = Inr (Some False)
   \<and> fs_files (snd (normalize_audio \<lparr>ffmpeg_available = Some True\<rparr> locked_temp_env one_file_world
            (ustr ''d'', ustr ''A - T.mp3''))) = []"
  by code_simp

section \<open>Properties of the coordinator's pre-check\<close>


















text \<open>
  C7 does not hold of the code. The directory holds \<open>A - Song [Live].mp3\<close>, the
  file built from the track's normalized names; in the pattern
  \<open>*Song [Live]*.mp3\<close> the brackets are a character class, the name does not match,
  and the track is searched and downloaded again.
\<close>

theorem process_track_brackets_refetch:
  "exists_file live_world
     ((ustr ''d''), normalize_filename (py_join (ustr '', '') (track_artists live_track)) @ (ustr '' - '')
             @ normalize_filename (track_name live_track) @ (ustr ''.mp3''))
   \<and> events_since live_world
        (snd (process_track \<lparr>ffmpeg_available = Some True\<rparr> found_env live_world live_track (ustr ''d'')))
       = [Search (ustr ''ytsearch2:Song [Live] A''), Download (ustr ''u1'') (ustr ''d'', ustr ''temp_7'')]"
  by code_simp

end
